theory Spec2Isabelle
  imports Complex_Main
begin

section \<open>Data model\<close>

text \<open>
  A pandas timestamp as the scripts meet it: missing (\<open>NaT\<close>), naive (a wall-clock
  reading with no zone) or timezone-aware (a wall-clock reading and its offset from UTC).
  Readings and offsets are counted in seconds.
\<close>

datatype timestamp = NaT | Naive int | Aware int int

text \<open>
  A volume as a row of the frame holds it: a Python \<open>int\<close>, or a
  \<open>numpy.int64\<close>, for which the database driver has no adapter.
\<close>

datatype volume_value = Py_int int | Np_int64 int

fun volume_int :: "volume_value \<Rightarrow> int" where
  "volume_int (Py_int v) = v"
| "volume_int (Np_int64 v) = v"

text \<open>
  One row of the provider's DataFrame (\<open>df.iterrows()\<close>). \<open>df_symbol\<close> is the
  provider's own per-row symbol or instrument identifier column; \<open>df_ts_event\<close>
  is the column the scripts read as \<open>row['ts_event']\<close> (\<open>row.timestamp\<close> in
  \<open>scripts/fetch_data.py\<close>). Prices are the finite float64 values, taken as the
  real numbers they denote: the scripts only copy them.
\<close>

record raw_row =
  df_ts_event :: timestamp
  df_symbol :: string
  df_open :: real
  df_high :: real
  df_low :: real
  df_close :: real
  df_volume :: volume_value

text \<open>
  The parameter tuple \<open>(time, symbol, open, high, low, close, volume)\<close> that a
  script hands to the driver for one row.
\<close>

record params =
  par_time :: timestamp
  par_symbol :: string
  par_open :: real
  par_high :: real
  par_low :: real
  par_close :: real
  par_volume :: volume_value

text \<open>
  One row of \<open>futures_data.ohlcv_1d\<close>, with the columns of the
  \<open>CREATE TABLE\<close> statement. \<open>time TIMESTAMP WITH TIME ZONE\<close> holds an
  instant, counted in seconds of UTC; \<open>volume INTEGER\<close> holds an integer.
\<close>

record db_row =
  col_time :: int
  col_symbol :: string
  col_open :: real
  col_high :: real
  col_low :: real
  col_close :: real
  col_volume :: int

text \<open>The table is a list of rows; the database holds it or not yet (\<open>None\<close>).\<close>

type_synonym table = "db_row list"
type_synonym database = "table option"

datatype pyexn =
    ProviderFailure string
  | ValueError string
  | TypeError
  | UnboundLocalError
  | OperationalError
  | ProgrammingError
  | DataError
  | CardinalityViolation
  | InFailedSqlTransaction

text \<open>
  A psycopg2 connection: the committed database, the working copy of the open
  transaction, whether a statement of that transaction has failed on the server, and the
  time zone of the session as its offset from UTC in seconds.
\<close>

datatype txn_status = In_transaction | In_failed_transaction

record connection =
  committed :: database
  working :: database
  status :: txn_status
  time_zone :: int

text \<open>
  The database server: whether it can be reached, whether the DDL runs, and the time zone
  it gives a session.
\<close>

record db_env =
  can_connect :: bool
  can_create :: bool
  session_zone :: int

text \<open>
  The Databento client returned by \<open>Historical(api_key)\<close>, a call that may itself
  raise: each call of the client either raises or returns. \<open>get_range\<close> stands for \<open>client.timeseries.get_range\<close> followed by
  \<open>to_df()\<close>, with the arguments dataset, symbols, start, end, schema;
  \<open>get_range_continuous\<close> is the adapter's request, whose schema is
  \<open>OHLCV_1D\<close> and whose symbols are continuous ones answered by instrument id.
\<close>

record provider =
  list_datasets :: "pyexn + string list"
  list_symbols :: "string \<Rightarrow> pyexn + string list"
  get_range :: "string \<Rightarrow> string list \<Rightarrow> string \<Rightarrow> string \<Rightarrow> string \<Rightarrow> pyexn + raw_row list"
  get_range_continuous ::
    "string \<Rightarrow> string list \<Rightarrow> string \<Rightarrow> string \<Rightarrow> pyexn + raw_row list"
  get_historical_ohlcv ::
    "string \<Rightarrow> string list \<Rightarrow> string \<Rightarrow> string \<Rightarrow> string \<Rightarrow> pyexn + raw_row list option"
  request_full_definitions :: "raw_row list \<Rightarrow> pyexn + raw_row list"

text \<open>The log lines that report a decision of a script, with their arguments.\<close>

datatype log_msg =
    Warn_no_data
  | Err_fetch pyexn
  | Err_connect pyexn
  | Err_schema pyexn
  | Err_row raw_row pyexn
  | Err_load pyexn
  | Err_run pyexn
  | Err_dataset string pyexn
  | Info_preparing nat
  | Info_loaded nat
  | Info_closed

text \<open>How a call of an entry point ends.\<close>

datatype outcome = Returned_None | Sys_exit nat | Raised pyexn

record run =
  run_db :: database
  run_log :: "log_msg list"
  run_outcome :: outcome

section \<open>The store\<close>

definition row_key :: "db_row \<Rightarrow> int \<times> string" where
  "row_key r = (col_time r, col_symbol r)"

text \<open>\<open>PRIMARY KEY (time, symbol)\<close>.\<close>

definition pk_unique :: "table \<Rightarrow> bool" where
  "pk_unique t = distinct (map row_key t)"

text \<open>
  \<open>INSERT INTO futures_data.ohlcv_1d ... VALUES (r) ON CONFLICT (time, symbol) DO UPDATE
  SET open = EXCLUDED.open, high = EXCLUDED.high, low = EXCLUDED.low, close = EXCLUDED.close,
  volume = EXCLUDED.volume\<close> for one proposed row.
\<close>

fun upsert :: "db_row \<Rightarrow> table \<Rightarrow> table" where
  "upsert r [] = [r]"
| "upsert r (x # xs) =
     (if row_key x = row_key r
      then x\<lparr>col_open := col_open r, col_high := col_high r, col_low := col_low r,
             col_close := col_close r, col_volume := col_volume r\<rparr> # xs
      else x # upsert r xs)"

text \<open>The driver binds every parameter of the tuple but a \<open>numpy.int64\<close>.\<close>

definition adaptable :: "params \<Rightarrow> bool" where
  "adaptable p = (case par_volume p of Py_int v \<Rightarrow> True | Np_int64 v \<Rightarrow> False)"

text \<open>\<open>volume INTEGER NOT NULL\<close>: a 32-bit signed column.\<close>

definition in_integer_range :: "int \<Rightarrow> bool" where
  "in_integer_range v = (- 2147483648 \<le> v \<and> v \<le> 2147483647)"

text \<open>
  The instant that the server stores for a submitted timestamp: an aware one by its own
  offset, a naive one read in the time zone of the session; \<open>NaT\<close> is no timestamp
  to the server.
\<close>

definition timestamptz :: "int \<Rightarrow> timestamp \<Rightarrow> int option" where
  "timestamptz zone ts =
     (case ts of
        NaT \<Rightarrow> None
      | Naive w \<Rightarrow> Some (w - zone)
      | Aware w off \<Rightarrow> Some (w - off))"

text \<open>The server takes a proposed row when its time is a timestamp and its volume fits.\<close>

definition server_accepts :: "int \<Rightarrow> params \<Rightarrow> bool" where
  "server_accepts zone p =
     (timestamptz zone (par_time p) \<noteq> None \<and> in_integer_range (volume_int (par_volume p)))"

text \<open>The row that the server makes of a proposed row it takes.\<close>

definition stored :: "int \<Rightarrow> params \<Rightarrow> db_row" where
  "stored zone p =
     \<lparr>col_time = the (timestamptz zone (par_time p)), col_symbol = par_symbol p,
      col_open = par_open p, col_high = par_high p, col_low = par_low p,
      col_close = par_close p, col_volume = volume_int (par_volume p)\<rparr>"

text \<open>
  \<open>cur.execute\<close> of the insert statement with the proposed rows \<open>ps\<close> (one row in
  the row loop, a page of rows under \<open>execute_values\<close>). The driver binds the
  parameters first and raises without sending anything when one has no adapter. The server
  refuses every statement of a failed transaction; a statement that fails leaves the table
  as it was and fails the transaction. One statement may not propose the same key twice.
\<close>

definition execute :: "params list \<Rightarrow> connection \<Rightarrow> pyexn option \<times> connection" where
  "execute ps c =
     (if \<not> list_all adaptable ps then (Some ProgrammingError, c)
      else if status c = In_failed_transaction then (Some InFailedSqlTransaction, c)
      else case working c of
        None \<Rightarrow> (Some ProgrammingError, c\<lparr>status := In_failed_transaction\<rparr>)
      | Some t \<Rightarrow>
          if \<not> list_all (server_accepts (time_zone c)) ps
          then (Some DataError, c\<lparr>status := In_failed_transaction\<rparr>)
          else if \<not> distinct (map row_key (map (stored (time_zone c)) ps))
          then (Some CardinalityViolation, c\<lparr>status := In_failed_transaction\<rparr>)
          else (None, c\<lparr>working := Some (fold upsert (map (stored (time_zone c)) ps) t)\<rparr>))"

text \<open>\<open>conn.commit()\<close>: the server answers the commit of a failed transaction by rolling back.\<close>

definition commit :: "connection \<Rightarrow> connection" where
  "commit c =
     (case status c of
        In_transaction \<Rightarrow> c\<lparr>committed := working c\<rparr>
      | In_failed_transaction \<Rightarrow> c\<lparr>working := committed c, status := In_transaction\<rparr>)"

definition rollback :: "connection \<Rightarrow> connection" where
  "rollback c = c\<lparr>working := committed c, status := In_transaction\<rparr>"

text \<open>\<open>conn.close()\<close>: what is left is the committed database.\<close>

definition close :: "connection \<Rightarrow> database" where
  "close c = committed c"

text \<open>
  A fresh session on the database \<open>d\<close> in the time zone \<open>zone\<close>: nothing
  pending, no failed statement.
\<close>

definition connect :: "int \<Rightarrow> database \<Rightarrow> connection" where
  "connect zone d = \<lparr>committed = d, working = d, status = In_transaction, time_zone = zone\<rparr>"

definition get_db_connection :: "db_env \<Rightarrow> database \<Rightarrow> pyexn + connection" where
  "get_db_connection env d =
     (if can_connect env then Inr (connect (session_zone env) d) else Inl OperationalError)"

text \<open>
  \<open>ensure_schema_exists\<close>: \<open>CREATE SCHEMA IF NOT EXISTS\<close>, \<open>CREATE TABLE IF NOT
  EXISTS\<close>, \<open>conn.commit()\<close>. An existing table is left alone.
\<close>

definition ensure_schema_exists :: "db_env \<Rightarrow> connection \<Rightarrow> pyexn option \<times> connection" where
  "ensure_schema_exists env c =
     (if \<not> can_create env then (Some ProgrammingError, c\<lparr>status := In_failed_transaction\<rparr>)
      else (None, commit (c\<lparr>working := (case working c of None \<Rightarrow> Some [] | Some t \<Rightarrow> Some t)\<rparr>)))"

text \<open>The default \<open>page_size\<close> of \<open>psycopg2.extras.execute_values\<close>.\<close>

definition page_size :: nat where
  "page_size = 100"

text \<open>
  \<open>execute_values(cur, sql, records)\<close>: the records are cut into pages of
  \<open>page_size\<close>, and each page is one statement; an exception of a page ends the call.
\<close>

function paginate :: "'a list \<Rightarrow> 'a list list" where
  "paginate xs = (if xs = [] then [] else take page_size xs # paginate (drop page_size xs))"
  by pat_completeness auto
termination
  by (relation "measure length") (auto simp: page_size_def)

declare paginate.simps [simp del]

fun execute_pages :: "params list list \<Rightarrow> connection \<Rightarrow> pyexn option \<times> connection" where
  "execute_pages [] c = (None, c)"
| "execute_pages (page # pages) c =
     (case execute page c of
        (Some e, c') \<Rightarrow> (Some e, c')
      | (None, c') \<Rightarrow> execute_pages pages c')"

definition execute_values :: "params list \<Rightarrow> connection \<Rightarrow> pyexn option \<times> connection" where
  "execute_values recs c = execute_pages (paginate recs) c"

section \<open>Record preparation\<close>

text \<open>
  \<open>pd.Timestamp(ts).tz_localize(timezone.utc)\<close>: a naive reading is labelled UTC and
  keeps its wall-clock value, an aware one raises \<open>TypeError\<close>, \<open>NaT\<close> stays \<open>NaT\<close>.
\<close>

definition tz_localize_utc :: "timestamp \<Rightarrow> pyexn + timestamp" where
  "tz_localize_utc ts =
     (case ts of
        NaT \<Rightarrow> Inr NaT
      | Naive w \<Rightarrow> Inr (Aware w 0)
      | Aware w off \<Rightarrow> Inl TypeError)"

text \<open>
  The loop \<open>for _, row in df.iterrows(): records.append((...))\<close> of the two
  \<open>ingest_data.py\<close> scripts, for the symbol the script writes under.
\<close>

fun prepare_records :: "string \<Rightarrow> raw_row list \<Rightarrow> pyexn + params list" where
  "prepare_records symbol [] = Inr []"
| "prepare_records symbol (row # rows) =
     (case tz_localize_utc (df_ts_event row) of
        Inl e \<Rightarrow> Inl e
      | Inr ts \<Rightarrow>
          (case prepare_records symbol rows of
             Inl e \<Rightarrow> Inl e
           | Inr recs \<Rightarrow>
               Inr (\<lparr>par_time = ts, par_symbol = symbol, par_open = df_open row,
                     par_high = df_high row, par_low = df_low row, par_close = df_close row,
                     par_volume = df_volume row\<rparr> # recs)))"

text \<open>
  The parameter tuple of \<open>scripts/fetch_data.py\<close>:
  \<open>(row.timestamp, symbol, row.open, row.high, row.low, row.close, row.volume)\<close>.
\<close>

definition row_params :: "string \<Rightarrow> raw_row \<Rightarrow> params" where
  "row_params symbol row =
     \<lparr>par_time = df_ts_event row, par_symbol = symbol, par_open = df_open row,
      par_high = df_high row, par_low = df_low row, par_close = df_close row,
      par_volume = df_volume row\<rparr>"

section \<open>The row-loop script, scripts/fetch_data.py\<close>

text \<open>
  The row loop: \<open>try: cur.execute(...); rows_inserted += 1\<close>,
  \<open>except Exception: logging.error(...); continue\<close>. The state is the connection,
  \<open>rows_inserted\<close> and the log.
\<close>

fun insert_rows ::
  "string \<Rightarrow> raw_row list \<Rightarrow> connection \<times> nat \<times> log_msg list \<Rightarrow> connection \<times> nat \<times> log_msg list"
where
  "insert_rows symbol [] st = st"
| "insert_rows symbol (row # rows) (c, rows_inserted, lg) =
     (case execute [row_params symbol row] c of
        (None, c') \<Rightarrow> insert_rows symbol rows (c', rows_inserted + 1, lg)
      | (Some e, c') \<Rightarrow> insert_rows symbol rows (c', rows_inserted, lg @ [Err_row row e]))"

text \<open>The \<open>with conn.cursor()\<close> block: the loop, \<open>conn.commit()\<close>, the count logged.\<close>

definition load_rows ::
  "string \<Rightarrow> raw_row list \<Rightarrow> connection \<Rightarrow> connection \<times> nat \<times> log_msg list" where
  "load_rows symbol df conn =
     (case insert_rows symbol df (conn, 0, []) of
        (c, rows_inserted, lg) \<Rightarrow> (commit c, rows_inserted, lg @ [Info_loaded rows_inserted]))"

text \<open>
  \<open>fetch_and_load_data\<close> of \<open>scripts/fetch_data.py\<close>. Everything runs inside the
  outer \<open>try\<close>, the construction of the client too; its \<open>except\<close> clause
  rolls back when there is a connection and exits with status 1.
\<close>

definition fetch_data_fetch_and_load_data ::
  "(string \<Rightarrow> pyexn + provider) \<Rightarrow> db_env \<Rightarrow> string \<Rightarrow> string \<Rightarrow> string \<Rightarrow> string \<Rightarrow> database \<Rightarrow> run"
where
  "fetch_data_fetch_and_load_data Historical env api_key symbol start_date end_date d =
     (case Historical api_key of
        Inl e \<Rightarrow> \<lparr>run_db = d, run_log = [Err_run e], run_outcome = Sys_exit 1\<rparr>
      | Inr client \<Rightarrow>
     (case get_db_connection env d of
        Inl e \<Rightarrow>
          \<lparr>run_db = d, run_log = [Err_connect e, Err_run e], run_outcome = Sys_exit 1\<rparr>
      | Inr conn \<Rightarrow>
          (case ensure_schema_exists env conn of
             (Some e, conn') \<Rightarrow>
               \<lparr>run_db = close (rollback conn'), run_log = [Err_schema e, Err_run e, Info_closed],
                run_outcome = Sys_exit 1\<rparr>
           | (None, conn') \<Rightarrow>
               (case get_historical_ohlcv client ''CME'' [symbol] start_date end_date ''1d'' of
                  Inl e \<Rightarrow>
                    \<lparr>run_db = close (rollback conn'), run_log = [Err_fetch e, Err_run e, Info_closed],
                     run_outcome = Sys_exit 1\<rparr>
                | Inr None \<Rightarrow>
                    \<lparr>run_db = close conn', run_log = [Warn_no_data, Info_closed],
                     run_outcome = Returned_None\<rparr>
                | Inr (Some df) \<Rightarrow>
                    if df = []
                    then \<lparr>run_db = close conn', run_log = [Warn_no_data, Info_closed],
                          run_outcome = Returned_None\<rparr>
                    else (case load_rows symbol df conn' of
                            (c, rows_inserted, lg) \<Rightarrow>
                              \<lparr>run_db = close c, run_log = lg @ [Info_closed],
                               run_outcome = Returned_None\<rparr>)))))"

section \<open>The two ingest_data.py scripts\<close>

text \<open>
  The insert block of both scripts: \<open>execute_values\<close>, \<open>conn.commit()\<close>,
  \<open>"Successfully loaded {len(records)} records"\<close>. An exception leaves the block
  before the commit.
\<close>

definition load_records ::
  "params list \<Rightarrow> connection \<Rightarrow> pyexn option \<times> connection \<times> log_msg list" where
  "load_records records conn =
     (case execute_values records conn of
        (Some e, c) \<Rightarrow> (Some e, c, [])
      | (None, c) \<Rightarrow> (None, commit c, [Info_loaded (length records)]))"

text \<open>
  \<open>fetch_and_load_data\<close> of \<open>trade_ngin/scripts/ingest_data.py\<close>. The client is
  built before the first \<open>try\<close>, so its exception leaves the function. \<open>conn\<close>
  is first bound inside the second \<open>try\<close>, so the \<open>finally\<close> clause reads an
  unbound name when the connection fails.
\<close>

definition trade_ngin_ingest_fetch_and_load_data ::
  "(string \<Rightarrow> pyexn + provider) \<Rightarrow> db_env \<Rightarrow> string \<Rightarrow> database \<Rightarrow> run" where
  "trade_ngin_ingest_fetch_and_load_data Historical env api_key d =
     (case Historical api_key of
        Inl e \<Rightarrow> \<lparr>run_db = d, run_log = [], run_outcome = Raised e\<rparr>
      | Inr client \<Rightarrow>
     (case get_range client ''GLBX.MDP3'' [''ES''] ''2024-01-01'' ''2024-01-31'' ''ohlcv-1d'' of
        Inl e \<Rightarrow> \<lparr>run_db = d, run_log = [Err_fetch e], run_outcome = Returned_None\<rparr>
      | Inr df \<Rightarrow>
          if df = []
          then \<lparr>run_db = d, run_log = [Warn_no_data], run_outcome = Returned_None\<rparr>
          else (case get_db_connection env d of
                  Inl e \<Rightarrow>
                    \<lparr>run_db = d, run_log = [Err_load e], run_outcome = Raised UnboundLocalError\<rparr>
                | Inr conn \<Rightarrow>
                    (case ensure_schema_exists env conn of
                       (Some e, conn') \<Rightarrow>
                         \<lparr>run_db = close conn', run_log = [Err_load e, Info_closed],
                          run_outcome = Returned_None\<rparr>
                     | (None, conn') \<Rightarrow>
                         (case prepare_records ''ES'' df of
                            Inl e \<Rightarrow>
                              \<lparr>run_db = close conn', run_log = [Err_load e, Info_closed],
                               run_outcome = Returned_None\<rparr>
                          | Inr records \<Rightarrow>
                              (case load_records records conn' of
                                 (Some e, c, lg) \<Rightarrow>
                                   \<lparr>run_db = close c,
                                    run_log = Info_preparing (length records) # lg @ [Err_load e, Info_closed],
                                    run_outcome = Returned_None\<rparr>
                               | (None, c, lg) \<Rightarrow>
                                   \<lparr>run_db = close c,
                                    run_log = Info_preparing (length records) # lg @ [Info_closed],
                                    run_outcome = Returned_None\<rparr>))))))"

text \<open>
  \<open>scripts/ingest_data.py\<close>: the loop over the provider's datasets. Every exception
  inside an iteration is logged and the loop goes on with the next dataset; the connection
  of that iteration is abandoned, so what it had not committed is lost. The first dataset
  whose records are committed ends the call.
\<close>

fun load_first_dataset ::
  "provider \<Rightarrow> db_env \<Rightarrow> string \<Rightarrow> string \<Rightarrow> string list \<Rightarrow> database \<Rightarrow> log_msg list \<Rightarrow> run" where
  "load_first_dataset client env start_date end_date [] d lg =
     \<lparr>run_db = d, run_log = lg, run_outcome = Returned_None\<rparr>"
| "load_first_dataset client env start_date end_date (dataset # rest) d lg =
     (case list_symbols client dataset of
        Inl e \<Rightarrow>
          load_first_dataset client env start_date end_date rest d (lg @ [Err_dataset dataset e])
      | Inr [] \<Rightarrow> load_first_dataset client env start_date end_date rest d lg
      | Inr (symbol # others) \<Rightarrow>
          (case get_range client dataset [symbol] start_date end_date ''ohlcv'' of
             Inl e \<Rightarrow>
               load_first_dataset client env start_date end_date rest d (lg @ [Err_dataset dataset e])
           | Inr df \<Rightarrow>
               if df = [] then load_first_dataset client env start_date end_date rest d lg
               else (case get_db_connection env d of
                  Inl e \<Rightarrow>
                    load_first_dataset client env start_date end_date rest d
                      (lg @ [Err_dataset dataset e])
                | Inr conn \<Rightarrow>
                    (case ensure_schema_exists env conn of
                       (Some e, conn') \<Rightarrow>
                         load_first_dataset client env start_date end_date rest (committed conn')
                           (lg @ [Err_dataset dataset e])
                     | (None, conn') \<Rightarrow>
                         (case prepare_records symbol df of
                            Inl e \<Rightarrow>
                              load_first_dataset client env start_date end_date rest (committed conn')
                                (lg @ [Err_dataset dataset e])
                          | Inr records \<Rightarrow>
                              (case load_records records conn' of
                                 (Some e, c, lg') \<Rightarrow>
                                   load_first_dataset client env start_date end_date rest (committed c)
                                     (lg @ Info_preparing (length records) # lg' @ [Err_dataset dataset e])
                               | (None, c, lg') \<Rightarrow>
                                   \<lparr>run_db = close c,
                                    run_log = lg @ Info_preparing (length records) # lg',
                                    run_outcome = Returned_None\<rparr>))))))"

text \<open>
  \<open>fetch_and_load_data\<close> of \<open>scripts/ingest_data.py\<close>. The client is built
  before the \<open>try\<close>, so its exception leaves the function; the exception of
  \<open>list_datasets\<close> is logged by the outer \<open>except\<close> clause.
\<close>

definition scripts_ingest_fetch_and_load_data ::
  "(string \<Rightarrow> pyexn + provider) \<Rightarrow> db_env \<Rightarrow> string \<Rightarrow> string \<Rightarrow> string \<Rightarrow> database \<Rightarrow> run" where
  "scripts_ingest_fetch_and_load_data Historical env api_key start_date end_date d =
     (case Historical api_key of
        Inl e \<Rightarrow> \<lparr>run_db = d, run_log = [], run_outcome = Raised e\<rparr>
      | Inr client \<Rightarrow>
     (case list_datasets client of
        Inl e \<Rightarrow> \<lparr>run_db = d, run_log = [Err_fetch e], run_outcome = Returned_None\<rparr>
      | Inr metadata \<Rightarrow> load_first_dataset client env start_date end_date metadata d []))"

section \<open>The adapter, trade_ngin/adapters/databento.py\<close>



section \<open>Notions used by the properties\<close>

text \<open>A proposed row that the driver binds and the server takes.\<close>

definition accepted :: "int \<Rightarrow> params \<Rightarrow> bool" where
  "accepted zone p = (adaptable p \<and> server_accepts zone p)"

text \<open>A page that \<open>execute\<close> runs without an exception.\<close>

definition page_ok :: "int \<Rightarrow> params list \<Rightarrow> bool" where
  "page_ok zone ps =
     (list_all adaptable ps \<and> list_all (server_accepts zone) ps
      \<and> distinct (map row_key (map (stored zone) ps)))"

text \<open>A proposed row that reaches the server and is refused there.\<close>

definition server_rejects :: "int \<Rightarrow> params \<Rightarrow> bool" where
  "server_rejects zone p = (adaptable p \<and> \<not> server_accepts zone p)"

text \<open>The stored row of a key, if any.\<close>

definition lookup_key :: "int \<times> string \<Rightarrow> table \<Rightarrow> db_row option" where
  "lookup_key k t = find (\<lambda>x. row_key x = k) t"

text \<open>
  One call of a writer on a fresh session, in the time zone \<open>zone\<close>, of the database
  \<open>d\<close>: the database it leaves and the row count it reports (the batch writer reports
  one only when it commits).
\<close>

definition write_rows :: "int \<Rightarrow> string \<Rightarrow> raw_row list \<Rightarrow> database \<Rightarrow> database \<times> nat" where
  "write_rows zone symbol df d =
     (case load_rows symbol df (connect zone d) of
        (c, rows_inserted, lg) \<Rightarrow> (close c, rows_inserted))"

definition write_records :: "int \<Rightarrow> params list \<Rightarrow> database \<Rightarrow> database \<times> nat option" where
  "write_records zone records d =
     (case load_records records (connect zone d) of
        (Some e, c, lg) \<Rightarrow> (close c, None)
      | (None, c, lg) \<Rightarrow> (close c, Some (length records)))"

text \<open>A sequence of writes, by either writer in a session of any time zone, on the database.\<close>

datatype write_op = Row_loop int string "raw_row list" | Values int "params list"

fun apply_write :: "write_op \<Rightarrow> database \<Rightarrow> database" where
  "apply_write (Row_loop zone symbol df) d = fst (write_rows zone symbol df d)"
| "apply_write (Values zone records) d = fst (write_records zone records d)"

text \<open>The database after the schema bootstrapper has run on a server without the table.\<close>

definition bootstrapped :: database where
  "bootstrapped =
     close (snd (ensure_schema_exists \<lparr>can_connect = True, can_create = True, session_zone = 0\<rparr>
       (connect 0 None)))"

text \<open>The rows of a database, none when the table is not there.\<close>

definition table_of :: "database \<Rightarrow> table" where
  "table_of d = (case d of None \<Rightarrow> [] | Some t \<Rightarrow> t)"


text \<open>The record that the \<open>ingest_data.py\<close> scripts prepare from a row with a naive timestamp.\<close>

definition localized :: "string \<Rightarrow> raw_row \<Rightarrow> params" where
  "localized symbol row =
     (row_params symbol row)\<lparr>par_time := (case df_ts_event row of Naive w \<Rightarrow> Aware w 0 | ts \<Rightarrow> ts)\<rparr>"

section \<open>Sample data\<close>

text \<open>
  A daily bar as the provider delivers it: midnight of day \<open>n\<close> of January 2024 as a
  naive reading in seconds since the epoch, under the provider's instrument id, with a
  Python \<open>int\<close> as volume.
\<close>

definition bar :: "int \<Rightarrow> real \<Rightarrow> real \<Rightarrow> real \<Rightarrow> real \<Rightarrow> int \<Rightarrow> raw_row" where
  "bar n opn hi lo cls vol =
     \<lparr>df_ts_event = Naive (1704067200 + 86400 * (n - 1)), df_symbol = ''ESH4'',
      df_open = opn, df_high = hi, df_low = lo, df_close = cls, df_volume = Py_int vol\<rparr>"

text \<open>Ten bars; the fourth has its high below its low.\<close>

definition ten_bars :: "raw_row list" where
  "ten_bars =
     [bar 2 4700.125 4712 4690 4700 1500, bar 3 4701 4715 4695 4710 1400,
      bar 4 4710 4720 4700 4705 1300, bar 5 4705 4690 4700 4702 1200,
      bar 8 4702 4711 4699 4708 1100, bar 9 4708 4718 4701 4703 1000,
      bar 10 4703 4709 4688 4690 1600, bar 11 4690 4704 4685 4701 1700,
      bar 12 4701 4722 4700 4720 1800, bar 16 4720 4731 4715 4725 1900]"

text \<open>
  A bar whose volume is a \<open>numpy.int64\<close>, a bar without a timestamp, one whose volume
  does not fit the column, and one whose timestamp carries the offset of one hour.
\<close>

definition bar_np :: raw_row where
  "bar_np = (bar 3 4701 4715 4695 4710 1400)\<lparr>df_volume := Np_int64 1400\<rparr>"

definition bar_nat :: raw_row where
  "bar_nat = (bar 3 4701 4715 4695 4710 1400)\<lparr>df_ts_event := NaT\<rparr>"

definition bar_big :: raw_row where
  "bar_big = bar 3 4701 4715 4695 4710 3000000000"

definition bar_aware :: raw_row where
  "bar_aware = (bar 3 4701 4715 4695 4710 1400)\<lparr>df_ts_event := Aware 1704243600 3600\<rparr>"

text \<open>ES on 2024-01-02, first with close 4700.00, then re-sent with close 4705.25.\<close>

definition es_old :: raw_row where
  "es_old = bar 2 4690 4712 4688 4700 1500"



text \<open>Three bars each: the second is the one the driver cannot bind, or one the server refuses.\<close>

definition mixed_bars :: "raw_row list" where
  "mixed_bars = [bar 2 4700.125 4712 4690 4700 1500, bar_np, bar 4 4710 4720 4700 4705 1300]"

definition undated_bars :: "raw_row list" where
  "undated_bars = [bar 2 4700.125 4712 4690 4700 1500, bar_nat, bar 4 4710 4720 4700 4705 1300]"

definition oversized_bars :: "raw_row list" where
  "oversized_bars = [bar 2 4700.125 4712 4690 4700 1500, bar_big, bar 4 4710 4720 4700 4705 1300]"

text \<open>A server that can be reached, runs the DDL and keeps its sessions in UTC.\<close>

definition ok_env :: db_env where
  "ok_env = \<lparr>can_connect = True, can_create = True, session_zone = 0\<rparr>"

text \<open>
  A client that answers every data request with the frame \<open>df\<close> and lists the one
  dataset \<open>GLBX.MDP3\<close> with the symbols \<open>syms\<close>.
\<close>

definition client_with :: "string list \<Rightarrow> raw_row list \<Rightarrow> provider" where
  "client_with syms df =
     \<lparr>list_datasets = Inr [''GLBX.MDP3''],
      list_symbols = (\<lambda>dataset. Inr syms),
      get_range = (\<lambda>dataset symbols start_date end_date schema. Inr df),
      get_range_continuous = (\<lambda>dataset symbols start_date end_date. Inr df),
      get_historical_ohlcv = (\<lambda>dataset symbols start_date end_date interval. Inr (Some df)),
      request_full_definitions = (\<lambda>data. Inr [])\<rparr>"

text \<open>A client whose every request fails in the network or authentication layer.\<close>

definition client_down :: provider where
  "client_down =
     \<lparr>list_datasets = Inl (ProviderFailure ''401''),
      list_symbols = (\<lambda>dataset. Inl (ProviderFailure ''401'')),
      get_range = (\<lambda>dataset symbols start_date end_date schema. Inl (ProviderFailure ''401'')),
      get_range_continuous = (\<lambda>dataset symbols start_date end_date. Inl (ProviderFailure ''401'')),
      get_historical_ohlcv =
        (\<lambda>dataset symbols start_date end_date interval. Inl (ProviderFailure ''401'')),
      request_full_definitions = (\<lambda>data. Inl (ProviderFailure ''401''))\<rparr>"

section \<open>Properties of the store\<close>

subsection \<open>One upsert\<close>

lemma update_same_key:
  "row_key x = row_key r \<Longrightarrow>
   x\<lparr>col_open := col_open r, col_high := col_high r, col_low := col_low r,
     col_close := col_close r, col_volume := col_volume r\<rparr> = r"
  by (cases x; cases r) (simp add: row_key_def)

lemma upsert_keys:
  "map row_key (upsert r t) =
     (if row_key r \<in> set (map row_key t) then map row_key t else map row_key t @ [row_key r])"
  by (induction t) (auto simp: row_key_def)

lemma upsert_pk_unique: "pk_unique t \<Longrightarrow> pk_unique (upsert r t)"
  by (simp add: pk_unique_def upsert_keys)


lemma upsert_lookup:
  "lookup_key k (upsert r t) = (if k = row_key r then Some r else lookup_key k t)"
  by (induction t) (auto simp: lookup_key_def update_same_key)


subsection \<open>A table is its key order and its lookup\<close>



subsection \<open>A run of upserts\<close>

lemma fold_upsert_pk_unique: "pk_unique t \<Longrightarrow> pk_unique (fold upsert rs t)"
  by (induction rs arbitrary: t) (simp_all add: upsert_pk_unique)




lemma find_app:
  "find P (xs @ ys) = (case find P xs of None \<Rightarrow> find P ys | Some x \<Rightarrow> Some x)"
  by (induction xs) auto

lemma fold_upsert_lookup:
  "lookup_key k (fold upsert rs t) =
     (case find (\<lambda>x. row_key x = k) (rev rs) of Some r \<Rightarrow> Some r | None \<Rightarrow> lookup_key k t)"
  by (induction rs arbitrary: t) (auto simp: upsert_lookup find_app split: option.splits)



subsection \<open>Statements, pages and the transaction\<close>

lemma connect_fields:
  "committed (connect zone d) = d" "working (connect zone d) = d"
  "status (connect zone d) = In_transaction" "time_zone (connect zone d) = zone"
  by (simp_all add: connect_def)

lemma execute_ok:
  "status c = In_transaction \<Longrightarrow> working c = Some t \<Longrightarrow> page_ok (time_zone c) ps \<Longrightarrow>
   execute ps c = (None, c\<lparr>working := Some (fold upsert (map (stored (time_zone c)) ps) t)\<rparr>)"
  by (simp add: execute_def page_ok_def)

lemma execute_None_page_ok: "execute ps c = (None, c') \<Longrightarrow> page_ok (time_zone c) ps"
  by (auto simp: execute_def page_ok_def split: if_splits option.splits)

lemma execute_committed:
  "committed (snd (execute ps c)) = committed c" "time_zone (snd (execute ps c)) = time_zone c"
  by (simp_all add: execute_def split: option.splits)

lemma execute_pages_committed:
  "committed (snd (execute_pages pages c)) = committed c
   \<and> time_zone (snd (execute_pages pages c)) = time_zone c"
proof (induction pages arbitrary: c)
  case Nil
  then show ?case by simp
next
  case (Cons p pages)
  show ?case
  proof (cases "execute p c")
    case (Pair res c')
    with execute_committed[of p c] have same: "committed c' = committed c" "time_zone c' = time_zone c"
      by simp_all
    show ?thesis
    proof (cases res)
      case None
      with Pair Cons.IH[of c'] same show ?thesis by simp
    next
      case (Some e)
      with Pair same show ?thesis by simp
    qed
  qed
qed

lemma execute_pages_ok:
  "status c = In_transaction \<Longrightarrow> working c = Some t \<Longrightarrow> list_all (page_ok (time_zone c)) pages \<Longrightarrow>
   execute_pages pages c =
     (None, c\<lparr>working := Some (fold upsert (map (stored (time_zone c)) (concat pages)) t)\<rparr>)"
proof (induction pages arbitrary: c t)
  case Nil
  then show ?case by simp
next
  case (Cons p pages)
  let ?z = "time_zone c"
  let ?c' = "c\<lparr>working := Some (fold upsert (map (stored ?z) p) t)\<rparr>"
  from Cons.prems have ex: "execute p c = (None, ?c')"
    by (simp add: execute_ok)
  have "execute_pages pages ?c' =
     (None, ?c'\<lparr>working := Some (fold upsert (map (stored (time_zone ?c')) (concat pages))
        (fold upsert (map (stored ?z) p) t))\<rparr>)"
    using Cons.prems by (intro Cons.IH) simp_all
  with ex show ?case by simp
qed

lemma execute_pages_bad:
  "\<not> list_all (page_ok (time_zone c)) pages \<Longrightarrow> \<exists>e c'. execute_pages pages c = (Some e, c')"
proof (induction pages arbitrary: c)
  case Nil
  then show ?case by simp
next
  case (Cons p pages)
  show ?case
  proof (cases "execute p c")
    case (Pair res c')
    show ?thesis
    proof (cases res)
      case None
      with Pair have "page_ok (time_zone c) p" by (auto dest: execute_None_page_ok)
      moreover from Pair execute_committed(2)[of p c] have "time_zone c' = time_zone c" by simp
      ultimately have "\<not> list_all (page_ok (time_zone c')) pages" using Cons.prems by simp
      from Cons.IH[OF this] Pair None show ?thesis by simp
    next
      case (Some e)
      with Pair show ?thesis by simp
    qed
  qed
qed

lemma concat_paginate: "concat (paginate xs) = xs"
proof (induction xs rule: paginate.induct)
  case (1 xs)
  show ?case
  proof (cases "xs = []")
    case True
    then show ?thesis by (subst paginate.simps) simp
  next
    case False
    with 1 have "concat (paginate (drop page_size xs)) = drop page_size xs" by simp
    with False show ?thesis by (subst paginate.simps) simp
  qed
qed

lemma paginate_pages_ok:
  "list_all (accepted zone) recs \<Longrightarrow> distinct (map row_key (map (stored zone) recs)) \<Longrightarrow>
   list_all (page_ok zone) (paginate recs)"
proof (induction recs rule: paginate.induct)
  case (1 xs)
  show ?case
  proof (cases "xs = []")
    case True
    then show ?thesis by (subst paginate.simps) simp
  next
    case False
    have acc: "\<forall>r \<in> set xs. accepted zone r" using "1.prems"(1) by (simp add: list_all_iff)
    have keys: "distinct (map (\<lambda>p. row_key (stored zone p)) xs)"
      using "1.prems"(2) by (simp add: comp_def)
    have "\<forall>r \<in> set (take page_size xs). accepted zone r"
      using acc by (auto dest: in_set_takeD)
    moreover have "distinct (map (\<lambda>p. row_key (stored zone p)) (take page_size xs))"
      using keys by (simp add: take_map[symmetric] distinct_take)
    ultimately have head: "page_ok zone (take page_size xs)"
      by (simp add: page_ok_def accepted_def list_all_iff comp_def)
    have "\<forall>r \<in> set (drop page_size xs). accepted zone r"
      using acc by (auto dest: in_set_dropD)
    moreover have "distinct (map (\<lambda>p. row_key (stored zone p)) (drop page_size xs))"
      using keys by (simp add: drop_map[symmetric] distinct_drop)
    ultimately have "list_all (page_ok zone) (paginate (drop page_size xs))"
      using False by (intro "1.IH") (simp_all add: list_all_iff comp_def)
    with head False show ?thesis by (subst paginate.simps) simp
  qed
qed

lemma load_records_ok:
  assumes "list_all (page_ok zone) (paginate recs)"
  shows "load_records recs (connect zone (Some t)) =
     (None, connect zone (Some (fold upsert (map (stored zone) recs) t)), [Info_loaded (length recs)])"
proof -
  have "execute_pages (paginate recs) (connect zone (Some t)) =
     (None, (connect zone (Some t))\<lparr>working :=
        Some (fold upsert (map (stored (time_zone (connect zone (Some t)))) (concat (paginate recs))) t)\<rparr>)"
    using assms by (intro execute_pages_ok) (simp_all add: connect_fields)
  then show ?thesis
    by (simp add: load_records_def execute_values_def concat_paginate commit_def connect_def)
qed

lemma load_records_bad:
  assumes "\<not> list_all (page_ok zone) (paginate recs)"
  shows "\<exists>e c. load_records recs (connect zone d) = (Some e, c, []) \<and> committed c = d"
proof -
  from assms have "\<not> list_all (page_ok (time_zone (connect zone d))) (paginate recs)"
    by (simp add: connect_fields)
  from execute_pages_bad[OF this] obtain e c' where
    ex: "execute_pages (paginate recs) (connect zone d) = (Some e, c')" by blast
  with execute_pages_committed[of "paginate recs" "connect zone d"] have "committed c' = d"
    by (simp add: connect_fields)
  with ex show ?thesis by (simp add: load_records_def execute_values_def)
qed

lemma write_records_ok:
  "list_all (page_ok zone) (paginate recs) \<Longrightarrow>
   write_records zone recs (Some t) =
     (Some (fold upsert (map (stored zone) recs) t), Some (length recs))"
  by (simp add: write_records_def load_records_ok close_def connect_fields)

lemma write_records_bad:
  assumes "\<not> list_all (page_ok zone) (paginate recs)"
  shows "write_records zone recs d = (d, None)"
proof -
  from load_records_bad[OF assms, of d] obtain e c where
    "load_records recs (connect zone d) = (Some e, c, [])" "committed c = d" by blast
  then show ?thesis by (simp add: write_records_def close_def)
qed

lemma write_records_cases:
  "write_records zone recs (Some t) =
     (if list_all (page_ok zone) (paginate recs)
      then (Some (fold upsert (map (stored zone) recs) t), Some (length recs))
      else (Some t, None))"
  by (simp add: write_records_ok write_records_bad)

subsection \<open>The row loop\<close>

lemma execute_row_accepted:
  "status c = In_transaction \<Longrightarrow> working c = Some t \<Longrightarrow> accepted (time_zone c) p \<Longrightarrow>
   execute [p] c = (None, c\<lparr>working := Some (upsert (stored (time_zone c) p) t)\<rparr>)"
  by (simp add: execute_def accepted_def)

lemma execute_row_unadaptable: "\<not> adaptable p \<Longrightarrow> execute [p] c = (Some ProgrammingError, c)"
  by (simp add: execute_def)

lemma execute_row_rejected:
  "status c = In_transaction \<Longrightarrow> working c = Some t \<Longrightarrow> server_rejects (time_zone c) p \<Longrightarrow>
   execute [p] c = (Some DataError, c\<lparr>status := In_failed_transaction\<rparr>)"
  by (simp add: execute_def server_rejects_def)

lemma execute_row_failed:
  "status c = In_failed_transaction \<Longrightarrow> \<exists>e. execute [p] c = (Some e, c)"
  by (simp add: execute_def)

lemma insert_rows_failed:
  "status c = In_failed_transaction \<Longrightarrow> \<exists>lg'. insert_rows symbol df (c, n, lg) = (c, n, lg')"
proof (induction df arbitrary: lg)
  case Nil
  then show ?case by simp
next
  case (Cons row df)
  from execute_row_failed[OF Cons.prems] obtain e where
    "execute [row_params symbol row] c = (Some e, c)" by blast
  with Cons.IH[OF Cons.prems] show ?case by simp
qed

lemma insert_rows_failed_fst:
  "status c = In_failed_transaction \<Longrightarrow>
   fst (insert_rows symbol df (c, n, lg)) = c \<and> fst (snd (insert_rows symbol df (c, n, lg))) = n"
  using insert_rows_failed[of c symbol df n lg] by auto

lemma insert_rows_count:
  "status c = In_transaction \<Longrightarrow> working c = Some t \<Longrightarrow>
   fst (snd (insert_rows symbol df (c, n, lg))) =
     n + length (takeWhile (server_accepts (time_zone c))
           (filter adaptable (map (row_params symbol) df)))"
proof (induction df arbitrary: c t n lg)
  case Nil
  then show ?case by simp
next
  case (Cons row df)
  let ?p = "row_params symbol row"
  let ?z = "time_zone c"
  show ?case
  proof (cases "adaptable ?p")
    case False
    then have ex: "execute [?p] c = (Some ProgrammingError, c)"
      by (rule execute_row_unadaptable)
    from Cons.IH[OF Cons.prems, of n "lg @ [Err_row row ProgrammingError]"] ex False
    show ?thesis by simp
  next
    case ad: True
    show ?thesis
    proof (cases "server_accepts ?z ?p")
      case True
      with ad have acc: "accepted ?z ?p" by (simp add: accepted_def)
      let ?c' = "c\<lparr>working := Some (upsert (stored ?z ?p) t)\<rparr>"
      have ex: "execute [?p] c = (None, ?c')"
        using Cons.prems acc by (rule execute_row_accepted)
      have "status ?c' = In_transaction" "working ?c' = Some (upsert (stored ?z ?p) t)"
        using Cons.prems(1) by simp_all
      from Cons.IH[OF this, of "n + 1" lg] ex ad True
      show ?thesis by simp
    next
      case False
      with ad have rej: "server_rejects ?z ?p" by (simp add: server_rejects_def)
      let ?c' = "c\<lparr>status := In_failed_transaction\<rparr>"
      have ex: "execute [?p] c = (Some DataError, ?c')"
        using Cons.prems rej by (rule execute_row_rejected)
      have "fst (snd (insert_rows symbol df (?c', n, lg @ [Err_row row DataError]))) = n"
        by (simp add: insert_rows_failed_fst)
      with ex ad False show ?thesis by simp
    qed
  qed
qed

lemma insert_rows_all_taken:
  "status c = In_transaction \<Longrightarrow> working c = Some t \<Longrightarrow>
   list_all (server_accepts (time_zone c)) (filter adaptable (map (row_params symbol) df)) \<Longrightarrow>
   fst (insert_rows symbol df (c, n, lg)) =
     c\<lparr>working := Some (fold upsert (map (stored (time_zone c))
          (filter adaptable (map (row_params symbol) df))) t)\<rparr>"
proof (induction df arbitrary: c t n lg)
  case Nil
  then show ?case by simp
next
  case (Cons row df)
  let ?p = "row_params symbol row"
  let ?z = "time_zone c"
  show ?case
  proof (cases "adaptable ?p")
    case False
    then have ex: "execute [?p] c = (Some ProgrammingError, c)"
      by (rule execute_row_unadaptable)
    from Cons.prems(3) False have rest:
      "list_all (server_accepts ?z) (filter adaptable (map (row_params symbol) df))" by simp
    from Cons.IH[OF Cons.prems(1,2) rest, of n "lg @ [Err_row row ProgrammingError]"] ex False
    show ?thesis by simp
  next
    case ad: True
    with Cons.prems(3) have sa: "server_accepts ?z ?p" and rest:
      "list_all (server_accepts ?z) (filter adaptable (map (row_params symbol) df))" by simp_all
    from ad sa have acc: "accepted ?z ?p" by (simp add: accepted_def)
    let ?c' = "c\<lparr>working := Some (upsert (stored ?z ?p) t)\<rparr>"
    have ex: "execute [?p] c = (None, ?c')"
      using Cons.prems(1,2) acc by (rule execute_row_accepted)
    have "status ?c' = In_transaction" "working ?c' = Some (upsert (stored ?z ?p) t)"
      "list_all (server_accepts (time_zone ?c')) (filter adaptable (map (row_params symbol) df))"
      using Cons.prems(1) rest by simp_all
    from Cons.IH[OF this, of "n + 1" lg] ex ad
    show ?thesis by simp
  qed
qed

lemma insert_rows_some_refused:
  "status c = In_transaction \<Longrightarrow> working c = Some t \<Longrightarrow>
   \<not> list_all (server_accepts (time_zone c)) (filter adaptable (map (row_params symbol) df)) \<Longrightarrow>
   status (fst (insert_rows symbol df (c, n, lg))) = In_failed_transaction
   \<and> committed (fst (insert_rows symbol df (c, n, lg))) = committed c"
proof (induction df arbitrary: c t n lg)
  case Nil
  then show ?case by simp
next
  case (Cons row df)
  let ?p = "row_params symbol row"
  let ?z = "time_zone c"
  show ?case
  proof (cases "adaptable ?p")
    case False
    then have ex: "execute [?p] c = (Some ProgrammingError, c)"
      by (rule execute_row_unadaptable)
    from Cons.prems(3) False have rest:
      "\<not> list_all (server_accepts ?z) (filter adaptable (map (row_params symbol) df))" by simp
    from Cons.IH[OF Cons.prems(1,2) rest, of n "lg @ [Err_row row ProgrammingError]"] ex
    show ?thesis by simp
  next
    case ad: True
    show ?thesis
    proof (cases "server_accepts ?z ?p")
      case True
      with ad have acc: "accepted ?z ?p" by (simp add: accepted_def)
      let ?c' = "c\<lparr>working := Some (upsert (stored ?z ?p) t)\<rparr>"
      have ex: "execute [?p] c = (None, ?c')"
        using Cons.prems(1,2) acc by (rule execute_row_accepted)
      have "status ?c' = In_transaction" "working ?c' = Some (upsert (stored ?z ?p) t)"
        "\<not> list_all (server_accepts (time_zone ?c')) (filter adaptable (map (row_params symbol) df))"
        using Cons.prems(1,3) ad True by simp_all
      from Cons.IH[OF this, of "n + 1" lg] ex
      show ?thesis by simp
    next
      case False
      with ad have rej: "server_rejects ?z ?p" by (simp add: server_rejects_def)
      let ?c' = "c\<lparr>status := In_failed_transaction\<rparr>"
      have ex: "execute [?p] c = (Some DataError, ?c')"
        using Cons.prems(1,2) rej by (rule execute_row_rejected)
      have "fst (insert_rows symbol df (?c', n, lg @ [Err_row row DataError])) = ?c'"
        by (simp add: insert_rows_failed_fst)
      with ex show ?thesis by simp
    qed
  qed
qed

lemma write_rows_cases:
  "write_rows zone symbol df (Some t) =
     (if list_all (server_accepts zone) (filter adaptable (map (row_params symbol) df))
      then Some (fold upsert (map (stored zone) (filter adaptable (map (row_params symbol) df))) t)
      else Some t,
      length (takeWhile (server_accepts zone) (filter adaptable (map (row_params symbol) df))))"
proof -
  let ?c = "connect zone (Some t)"
  let ?F = "filter adaptable (map (row_params symbol) df)"
  have st: "status ?c = In_transaction" "working ?c = Some t" by (simp_all add: connect_fields)
  obtain c' n' lg' where run: "insert_rows symbol df (?c, 0, []) = (c', n', lg')"
    by (cases "insert_rows symbol df (?c, 0, [])") auto
  from insert_rows_count[OF st, of symbol df 0 "[]"] run
  have n': "n' = length (takeWhile (server_accepts zone) ?F)" by (simp add: connect_fields)
  show ?thesis
  proof (cases "list_all (server_accepts zone) ?F")
    case True
    then have "list_all (server_accepts (time_zone ?c)) ?F" by (simp add: connect_fields)
    from insert_rows_all_taken[OF st this, of 0 "[]"] run
    have "c' = ?c\<lparr>working := Some (fold upsert (map (stored zone) ?F) t)\<rparr>"
      by (simp add: connect_fields)
    with run n' True show ?thesis
      by (simp add: write_rows_def load_rows_def commit_def close_def connect_fields)
  next
    case False
    then have "\<not> list_all (server_accepts (time_zone ?c)) ?F" by (simp add: connect_fields)
    from insert_rows_some_refused[OF st this, of 0 "[]"] run
    have "status c' = In_failed_transaction" "committed c' = Some t"
      by (simp_all add: connect_fields)
    with run n' False show ?thesis
      by (simp add: write_rows_def load_rows_def commit_def close_def)
  qed
qed

lemma takeWhile_all: "list_all P xs \<Longrightarrow> takeWhile P xs = xs"
  by (induction xs) simp_all

lemma filter_adaptable_accepted: "list_all (accepted zone) ps \<Longrightarrow> filter adaptable ps = ps"
  by (induction ps) (simp_all add: accepted_def)

lemma accepted_server_accepts: "list_all (accepted zone) ps \<Longrightarrow> list_all (server_accepts zone) ps"
  by (induction ps) (simp_all add: accepted_def)

lemma write_rows_accepted:
  assumes "list_all (accepted zone) (map (row_params symbol) df)"
  shows "write_rows zone symbol df (Some t) =
     (Some (fold upsert (map (stored zone) (map (row_params symbol) df)) t), length df)"
proof -
  let ?ps = "map (row_params symbol) df"
  have "filter adaptable ?ps = ?ps" using assms by (rule filter_adaptable_accepted)
  moreover have "list_all (server_accepts zone) ?ps" using assms by (rule accepted_server_accepts)
  moreover from this have "takeWhile (server_accepts zone) ?ps = ?ps" by (rule takeWhile_all)
  ultimately show ?thesis by (simp only: write_rows_cases if_True length_map)
qed

lemma write_rows_Some: "\<exists>t'. fst (write_rows zone symbol df (Some t)) = Some t'"
  by (simp add: write_rows_cases)

subsection \<open>Writes keep the primary key\<close>

lemma apply_write_preserves:
  assumes "pk_unique t"
  shows "\<exists>t'. apply_write w (Some t) = Some t' \<and> pk_unique t'"
  using assms
  by (cases w) (simp_all add: write_rows_cases write_records_cases fold_upsert_pk_unique)

lemma fold_apply_write_preserves:
  "pk_unique t \<Longrightarrow> \<exists>t'. fold apply_write ws (Some t) = Some t' \<and> pk_unique t'"
proof (induction ws arbitrary: t)
  case Nil
  then show ?case by simp
next
  case (Cons w ws)
  from apply_write_preserves[OF Cons.prems, of w] obtain t1 where
    "apply_write w (Some t) = Some t1" "pk_unique t1" by blast
  with Cons.IH[of t1] show ?case by simp
qed

lemma bootstrapped_empty: "bootstrapped = Some []"
  by (simp add: bootstrapped_def ensure_schema_exists_def connect_def commit_def close_def)

text \<open>
  C3. After the schema bootstrapper has created the table, and after any sequence of
  writes by the row loop or by the batch writer, in sessions of any time zone, the table is
  there and no two of its rows have the same (time, symbol), the time being the stored
  instant.
\<close>

theorem key_uniqueness: "\<exists>t. fold apply_write ws bootstrapped = Some t \<and> pk_unique t"
  unfolding bootstrapped_empty by (rule fold_apply_write_preserves) (simp add: pk_unique_def)

theorem key_uniqueness_witness:
  "pk_unique (table_of (fold apply_write
      [Row_loop 0 ''ES'' ten_bars, Values 3600 (map (localized ''ES'') ten_bars),
       Row_loop 3600 ''ES'' [bar_aware, bar 3 4701 4715 4695 4710 1400]]
      bootstrapped))"
  using key_uniqueness[of "[Row_loop 0 ''ES'' ten_bars, Values 3600 (map (localized ''ES'') ten_bars),
       Row_loop 3600 ''ES'' [bar_aware, bar 3 4701 4715 4695 4710 1400]]"]
  by (auto simp: table_of_def)


subsection \<open>Writing a batch twice\<close>






subsection \<open>What a key holds after a write\<close>



lemma find_distinct_key:
  "distinct (map f xs) \<Longrightarrow> r \<in> set xs \<Longrightarrow> find (\<lambda>x. f x = f r) xs = Some r"
proof (induction xs)
  case Nil
  then show ?case by simp
next
  case (Cons x xs)
  show ?case
  proof (cases "x = r")
    case True
    then show ?thesis by simp
  next
    case False
    with Cons.prems have mem: "r \<in> set xs" by simp
    with Cons.prems(1) have "f x \<noteq> f r" by auto
    with Cons.IH Cons.prems(1) mem show ?thesis by simp
  qed
qed

lemma fold_upsert_lookup_member:
  assumes "distinct (map row_key rs)" and "r \<in> set rs"
  shows "lookup_key (row_key r) (fold upsert rs t) = Some r"
proof -
  have "distinct (map row_key (rev rs))" using assms(1) by (simp add: rev_map[symmetric])
  moreover have "r \<in> set (rev rs)" using assms(2) by simp
  ultimately have "find (\<lambda>x. row_key x = row_key r) (rev rs) = Some r"
    by (rule find_distinct_key)
  then show ?thesis by (simp add: fold_upsert_lookup)
qed





subsection \<open>All of a batch, or none of it\<close>

text \<open>
  C5, as the code has it. The batch writer of the \<open>ingest_data.py\<close> scripts leaves
  the table with every record of the batch applied, or as it was. The row loop of
  \<open>scripts/fetch_data.py\<close> handles the exception of each row: the rows the driver
  cannot bind are skipped and the other rows are committed, unless the server refuses a
  row, and then the commit rolls the whole batch back.
\<close>

theorem batch_all_or_nothing:
  "fst (write_records zone recs (Some t)) =
     (if list_all (page_ok zone) (paginate recs) then Some (fold upsert (map (stored zone) recs) t)
      else Some t)
   \<and> fst (write_rows zone symbol df (Some t)) =
     (if list_all (server_accepts zone) (filter adaptable (map (row_params symbol) df))
      then Some (fold upsert (map (stored zone) (filter adaptable (map (row_params symbol) df))) t)
      else Some t)"
  by (simp add: write_records_cases write_rows_cases)

theorem batch_all_or_nothing_witness:
  "fst (write_records 0 (map (row_params ''ES'') mixed_bars) (Some [stored 0 (row_params ''ES'' es_old)]))
     = Some [stored 0 (row_params ''ES'' es_old)]
   \<and> fst (write_rows 0 ''ES'' oversized_bars (Some [stored 0 (row_params ''ES'' es_old)]))
     = Some [stored 0 (row_params ''ES'' es_old)]
   \<and> fst (write_rows 0 ''ES'' undated_bars (Some [stored 0 (row_params ''ES'' es_old)]))
     = Some [stored 0 (row_params ''ES'' es_old)]"
proof -
  have p: "paginate (map (row_params ''ES'') mixed_bars) = [map (row_params ''ES'') mixed_bars]"
    by (simp add: paginate.simps page_size_def mixed_bars_def)
  have a: "\<not> list_all (page_ok 0) (paginate (map (row_params ''ES'') mixed_bars))"
    unfolding p by (simp add: page_ok_def mixed_bars_def bar_np_def bar_def row_params_def adaptable_def)
  have b: "\<not> list_all (server_accepts 0) (filter adaptable (map (row_params ''ES'') oversized_bars))"
    by (simp add: oversized_bars_def bar_big_def bar_def row_params_def server_accepts_def
        adaptable_def in_integer_range_def timestamptz_def)
  have c: "\<not> list_all (server_accepts 0) (filter adaptable (map (row_params ''ES'') undated_bars))"
    by (simp add: undated_bars_def bar_nat_def bar_def row_params_def server_accepts_def
        adaptable_def in_integer_range_def timestamptz_def)
  from batch_all_or_nothing[of 0 "map (row_params ''ES'') mixed_bars" "[stored 0 (row_params ''ES'' es_old)]"
      "''ES''" oversized_bars]
    batch_all_or_nothing[of 0 "[]" "[stored 0 (row_params ''ES'' es_old)]" "''ES''" undated_bars] a b c
  show ?thesis by simp
qed

text \<open>
  C5 as stated fails on the row loop: of three rows, the one whose volume the driver cannot
  bind is logged and skipped, and the two others are committed, which is neither the whole
  batch nor nothing.
\<close>

theorem row_loop_partial_counterexample:
  "write_rows 0 ''ES'' mixed_bars (Some []) =
     (Some [stored 0 (row_params ''ES'' (bar 2 4700.125 4712 4690 4700 1500)),
            stored 0 (row_params ''ES'' (bar 4 4710 4720 4700 4705 1300))], 2)
   \<and> length mixed_bars = 3
   \<and> fst (write_rows 0 ''ES'' mixed_bars (Some [])) \<noteq> Some []
   \<and> length (table_of (fst (write_rows 0 ''ES'' mixed_bars (Some [])))) = 2
   \<and> snd (snd (load_rows ''ES'' mixed_bars (connect 0 (Some [])))) =
       [Err_row bar_np ProgrammingError, Info_loaded 2]"
  by (simp add: write_rows_def load_rows_def mixed_bars_def bar_np_def bar_def row_params_def
      execute_def connect_def adaptable_def server_accepts_def timestamptz_def stored_def
      in_integer_range_def row_key_def commit_def close_def table_of_def)

section \<open>Properties of the scripts\<close>

subsection \<open>Record preparation\<close>


lemma prepare_records_length: "prepare_records symbol df = Inr recs \<Longrightarrow> length recs = length df"
  by (induction df arbitrary: recs) (auto split: sum.splits)



lemma prepare_records_nth:
  "prepare_records symbol df = Inr recs \<Longrightarrow> i < length df \<Longrightarrow>
   tz_localize_utc (df_ts_event (df ! i)) = Inr (par_time (recs ! i))
   \<and> par_symbol (recs ! i) = symbol
   \<and> par_open (recs ! i) = df_open (df ! i) \<and> par_high (recs ! i) = df_high (df ! i)
   \<and> par_low (recs ! i) = df_low (df ! i) \<and> par_close (recs ! i) = df_close (df ! i)
   \<and> par_volume (recs ! i) = df_volume (df ! i)"
proof (induction df arbitrary: recs i)
  case Nil
  then show ?case by simp
next
  case (Cons row df)
  from Cons.prems(1) obtain ts rest where
    ts: "tz_localize_utc (df_ts_event row) = Inr ts" and
    rest: "prepare_records symbol df = Inr rest" and
    recs: "recs = \<lparr>par_time = ts, par_symbol = symbol, par_open = df_open row,
                   par_high = df_high row, par_low = df_low row, par_close = df_close row,
                   par_volume = df_volume row\<rparr> # rest"
    by (auto split: sum.splits)
  show ?case
  proof (cases i)
    case 0
    with ts recs show ?thesis by simp
  next
    case (Suc j)
    with Cons.prems(2) have "j < length df" by simp
    from Cons.IH[OF rest this] Suc recs show ?thesis by simp
  qed
qed



subsection \<open>The session after the bootstrapper\<close>

lemma table_of_Some: "table_of (Some t) = t"
  by (simp add: table_of_def)

lemma ensure_schema_exists_ok:
  "can_create env \<Longrightarrow>
   ensure_schema_exists env (connect zone d) = (None, connect zone (Some (table_of d)))"
  by (cases d) (simp_all add: ensure_schema_exists_def connect_def commit_def table_of_def)

lemma ensure_schema_exists_fails:
  "\<not> can_create env \<Longrightarrow>
   ensure_schema_exists env (connect zone d) =
     (Some ProgrammingError, (connect zone d)\<lparr>status := In_failed_transaction\<rparr>)"
  by (simp add: ensure_schema_exists_def)

subsection \<open>The script trade_ngin/scripts/ingest_data.py as a whole\<close>



lemma trade_ngin_run_outcome:
  "Historical api_key = Inr client \<Longrightarrow> can_connect env \<Longrightarrow>
   run_outcome (trade_ngin_ingest_fetch_and_load_data Historical env api_key d) = Returned_None"
  by (simp add: trade_ngin_ingest_fetch_and_load_data_def get_db_connection_def
      split: sum.splits prod.splits option.splits)

subsection \<open>The script scripts/fetch_data.py as a whole\<close>



lemma fetch_data_run_outcome:
  "run_outcome (fetch_data_fetch_and_load_data Historical env api_key symbol start_date end_date d) =
     (case Historical api_key of
        Inl e \<Rightarrow> Sys_exit 1
      | Inr client \<Rightarrow>
          if can_connect env \<and> can_create env
          then (case get_historical_ohlcv client ''CME'' [symbol] start_date end_date ''1d'' of
                  Inl e \<Rightarrow> Sys_exit 1 | Inr answer \<Rightarrow> Returned_None)
          else Sys_exit 1)"
  by (simp add: fetch_data_fetch_and_load_data_def get_db_connection_def ensure_schema_exists_def
      split: sum.splits prod.splits option.splits)

subsection \<open>The script scripts/ingest_data.py as a whole\<close>

lemma load_first_dataset_step:
  "(\<exists>d' lg'. table_of d' = table_of d \<and>
       load_first_dataset client env start_date end_date (dataset # rest) d lg =
       load_first_dataset client env start_date end_date rest d' lg')
   \<or> (\<exists>symbol others df recs. list_symbols client dataset = Inr (symbol # others)
        \<and> get_range client dataset [symbol] start_date end_date ''ohlcv'' = Inr df
        \<and> prepare_records symbol df = Inr recs \<and> list_all (page_ok (session_zone env)) (paginate recs)
        \<and> load_first_dataset client env start_date end_date (dataset # rest) d lg =
            \<lparr>run_db = Some (fold upsert (map (stored (session_zone env)) recs) (table_of d)),
             run_log = lg @ [Info_preparing (length recs), Info_loaded (length recs)],
             run_outcome = Returned_None\<rparr>)"
  (is "?skip \<or> ?load")
proof -
  have skipI: "?skip" if "load_first_dataset client env start_date end_date (dataset # rest) d lg =
       load_first_dataset client env start_date end_date rest d' lg'" "table_of d' = table_of d"
    for d' lg'
    using that by blast
  show ?thesis
  proof (cases "list_symbols client dataset")
    case (Inl e)
    then have "load_first_dataset client env start_date end_date (dataset # rest) d lg =
       load_first_dataset client env start_date end_date rest d (lg @ [Err_dataset dataset e])"
      by simp
    then show ?thesis using skipI by blast
  next
    case (Inr symbols)
    show ?thesis
    proof (cases symbols)
      case Nil
      with Inr have "load_first_dataset client env start_date end_date (dataset # rest) d lg =
         load_first_dataset client env start_date end_date rest d lg"
        by simp
      then show ?thesis using skipI by blast
    next
      case (Cons symbol others)
      with Inr have ls: "list_symbols client dataset = Inr (symbol # others)" by simp
      show ?thesis
      proof (cases "get_range client dataset [symbol] start_date end_date ''ohlcv''")
        case (Inl e)
        with ls have "load_first_dataset client env start_date end_date (dataset # rest) d lg =
           load_first_dataset client env start_date end_date rest d (lg @ [Err_dataset dataset e])"
          by simp
        then show ?thesis using skipI by blast
      next
        case df: (Inr df)
        show ?thesis
        proof (cases "df = []")
          case True
          with ls df have "load_first_dataset client env start_date end_date (dataset # rest) d lg =
             load_first_dataset client env start_date end_date rest d lg"
            by simp
          then show ?thesis using skipI by blast
        next
          case ne: False
          show ?thesis
          proof (cases "can_connect env")
            case False
            with ls df ne have
              "load_first_dataset client env start_date end_date (dataset # rest) d lg =
               load_first_dataset client env start_date end_date rest d
                 (lg @ [Err_dataset dataset OperationalError])"
              by (simp add: get_db_connection_def)
            then show ?thesis using skipI by blast
          next
            case cc: True
            show ?thesis
            proof (cases "can_create env")
              case False
              with ls df ne cc have
                "load_first_dataset client env start_date end_date (dataset # rest) d lg =
                 load_first_dataset client env start_date end_date rest d
                   (lg @ [Err_dataset dataset ProgrammingError])"
                by (simp add: get_db_connection_def ensure_schema_exists_fails connect_fields)
              then show ?thesis using skipI by blast
            next
              case True
              have same: "table_of (Some (table_of d)) = table_of d"
                by (simp add: table_of_def)
              show ?thesis
              proof (cases "prepare_records symbol df")
                case (Inl e)
                with ls df ne cc True have
                  "load_first_dataset client env start_date end_date (dataset # rest) d lg =
                   load_first_dataset client env start_date end_date rest (Some (table_of d))
                     (lg @ [Err_dataset dataset e])"
                  by (simp add: get_db_connection_def ensure_schema_exists_ok connect_fields)
                then show ?thesis using skipI same by blast
              next
                case prep: (Inr recs)
                show ?thesis
                proof (cases "list_all (page_ok (session_zone env)) (paginate recs)")
                  case ok: True
                  with ls df ne cc True prep have
                    "load_first_dataset client env start_date end_date (dataset # rest) d lg =
                      \<lparr>run_db = Some (fold upsert (map (stored (session_zone env)) recs) (table_of d)),
                       run_log = lg @ [Info_preparing (length recs), Info_loaded (length recs)],
                       run_outcome = Returned_None\<rparr>"
                    by (simp add: get_db_connection_def ensure_schema_exists_ok load_records_ok
                        close_def connect_fields)
                  with ls df prep ok have ?load by blast
                  then show ?thesis ..
                next
                  case bad: False
                  from load_records_bad[OF bad, of "Some (table_of d)"] obtain e c where
                    lr: "load_records recs (connect (session_zone env) (Some (table_of d))) = (Some e, c, [])"
                    and cm: "committed c = Some (table_of d)" by blast
                  from ls df ne cc True prep lr cm have
                    "load_first_dataset client env start_date end_date (dataset # rest) d lg =
                     load_first_dataset client env start_date end_date rest (Some (table_of d))
                       (lg @ [Info_preparing (length recs), Err_dataset dataset e])"
                    by (simp add: get_db_connection_def ensure_schema_exists_ok)
                  then show ?thesis using skipI same by blast
                qed
              qed
            qed
          qed
        qed
      qed
    qed
  qed
qed


lemma load_first_dataset_outcome:
  "run_outcome (load_first_dataset client env start_date end_date datasets d lg) = Returned_None"
proof (induction datasets arbitrary: d lg)
  case Nil
  then show ?case by simp
next
  case (Cons dataset rest)
  let ?run = "load_first_dataset client env start_date end_date (dataset # rest) d lg"
  from load_first_dataset_step[of d client env start_date end_date dataset rest lg]
  consider (skip) d' lg' where
      "?run = load_first_dataset client env start_date end_date rest d' lg'"
    | (load) "run_outcome ?run = Returned_None"
    by (elim disjE exE conjE) (blast, simp)
  then show ?case
  proof cases
    case skip
    with Cons.IH[of d' lg'] show ?thesis by simp
  next
    case load
    then show ?thesis .
  qed
qed


lemma scripts_ingest_run_outcome:
  "Historical api_key = Inr client \<Longrightarrow>
   run_outcome (scripts_ingest_fetch_and_load_data Historical env api_key start_date end_date d)
     = Returned_None"
  by (cases "list_datasets client")
     (simp_all add: scripts_ingest_fetch_and_load_data_def load_first_dataset_outcome)

subsection \<open>One symbol for each run\<close>








subsection \<open>Timestamps of stored rows\<close>








subsection \<open>No row is refused for its prices\<close>













subsection \<open>Prices are stored as delivered\<close>

text \<open>
  C7, as the code has it. Nothing rounds a price. For a batch that the driver and the
  server accept and whose keys are distinct, the row stored under the key of the
  \<open>i\<close>-th provider row has exactly the open, high, low and close of that provider
  row, with the batch writer and with the row loop; the scripts compute nothing from a
  price, so the same input stores the same value at every run.
\<close>

theorem prices_stored_as_delivered:
  "(prepare_records symbol df = Inr recs \<and> list_all (accepted zone) recs
      \<and> distinct (map row_key (map (stored zone) recs)) \<and> i < length df \<longrightarrow>
     (\<exists>r. lookup_key (row_key (stored zone (recs ! i)))
             (table_of (fst (write_records zone recs (Some t)))) = Some r
        \<and> col_open r = df_open (df ! i) \<and> col_high r = df_high (df ! i)
        \<and> col_low r = df_low (df ! i) \<and> col_close r = df_close (df ! i)))
   \<and> (list_all (accepted zone) (map (row_params symbol) df)
      \<and> distinct (map row_key (map (stored zone) (map (row_params symbol) df))) \<and> i < length df \<longrightarrow>
     (\<exists>r. lookup_key (row_key (stored zone (row_params symbol (df ! i))))
             (table_of (fst (write_rows zone symbol df (Some t)))) = Some r
        \<and> col_open r = df_open (df ! i) \<and> col_high r = df_high (df ! i)
        \<and> col_low r = df_low (df ! i) \<and> col_close r = df_close (df ! i)))"
proof (intro conjI impI)
  let ?rs = "map (stored zone) recs"
  assume h: "prepare_records symbol df = Inr recs \<and> list_all (accepted zone) recs
      \<and> distinct (map row_key (map (stored zone) recs)) \<and> i < length df"
  then have prep: "prepare_records symbol df = Inr recs" and i: "i < length df"
    and dist: "distinct (map row_key ?rs)" by simp_all
  from h have ok: "list_all (page_ok zone) (paginate recs)" by (simp add: paginate_pages_ok)
  from prep i have il: "i < length recs" by (simp add: prepare_records_length)
  then have mem: "stored zone (recs ! i) \<in> set ?rs" by simp
  have w: "table_of (fst (write_records zone recs (Some t))) = fold upsert ?rs t"
    using ok by (simp add: write_records_ok table_of_Some)
  have "lookup_key (row_key (stored zone (recs ! i))) (fold upsert ?rs t) = Some (stored zone (recs ! i))"
    using dist mem by (rule fold_upsert_lookup_member)
  with w prepare_records_nth[OF prep i]
  show "\<exists>r. lookup_key (row_key (stored zone (recs ! i)))
             (table_of (fst (write_records zone recs (Some t)))) = Some r
        \<and> col_open r = df_open (df ! i) \<and> col_high r = df_high (df ! i)
        \<and> col_low r = df_low (df ! i) \<and> col_close r = df_close (df ! i)"
    by (simp add: stored_def)
next
  let ?ps = "map (row_params symbol) df"
  let ?rs = "map (stored zone) ?ps"
  assume h: "list_all (accepted zone) ?ps \<and> distinct (map row_key ?rs) \<and> i < length df"
  then have acc: "list_all (accepted zone) ?ps" and dist: "distinct (map row_key ?rs)"
    and i: "i < length df" by simp_all
  from i have mem: "stored zone (row_params symbol (df ! i)) \<in> set ?rs" by simp
  have w: "table_of (fst (write_rows zone symbol df (Some t))) = fold upsert ?rs t"
    using acc by (simp add: write_rows_accepted table_of_Some)
  have "lookup_key (row_key (stored zone (row_params symbol (df ! i)))) (fold upsert ?rs t)
          = Some (stored zone (row_params symbol (df ! i)))"
    using dist mem by (rule fold_upsert_lookup_member)
  with w show "\<exists>r. lookup_key (row_key (stored zone (row_params symbol (df ! i))))
             (table_of (fst (write_rows zone symbol df (Some t)))) = Some r
        \<and> col_open r = df_open (df ! i) \<and> col_high r = df_high (df ! i)
        \<and> col_low r = df_low (df ! i) \<and> col_close r = df_close (df ! i)"
    by (simp add: row_params_def stored_def)
qed

theorem prices_stored_as_delivered_witness:
  "lookup_key (row_key (stored 0 (row_params ''ES'' (ten_bars ! 0))))
      (table_of (fst (write_rows 0 ''ES'' ten_bars (Some []))))
     = Some (stored 0 (row_params ''ES'' (ten_bars ! 0)))
   \<and> col_open (stored 0 (row_params ''ES'' (ten_bars ! 0))) = 4700.125"
proof -
  have a: "list_all (accepted 0) (map (row_params ''ES'') ten_bars)"
    by (simp add: ten_bars_def bar_def row_params_def accepted_def adaptable_def
        server_accepts_def timestamptz_def in_integer_range_def)
  have d: "distinct (map row_key (map (stored 0) (map (row_params ''ES'') ten_bars)))"
    by (simp add: ten_bars_def bar_def row_params_def row_key_def stored_def timestamptz_def)
  have i: "0 < length ten_bars" by (simp add: ten_bars_def)
  from prices_stored_as_delivered[of "''ES''" ten_bars "[]" 0 0 "[]"] a d i
  obtain r where r: "lookup_key (row_key (stored 0 (row_params ''ES'' (ten_bars ! 0))))
             (table_of (fst (write_rows 0 ''ES'' ten_bars (Some [])))) = Some r"
    and "col_open r = df_open (ten_bars ! 0)" by blast
  have w: "table_of (fst (write_rows 0 ''ES'' ten_bars (Some [])))
             = fold upsert (map (stored 0) (map (row_params ''ES'') ten_bars)) []"
    using a by (simp add: write_rows_accepted table_of_Some)
  have "lookup_key (row_key (stored 0 (row_params ''ES'' (ten_bars ! 0))))
      (fold upsert (map (stored 0) (map (row_params ''ES'') ten_bars)) [])
        = Some (stored 0 (row_params ''ES'' (ten_bars ! 0)))"
    using d i by (intro fold_upsert_lookup_member) simp_all
  moreover have "col_open (stored 0 (row_params ''ES'' (ten_bars ! 0))) = 4700.125"
    by (simp add: ten_bars_def bar_def row_params_def stored_def)
  ultimately show ?thesis using w r by simp
qed

text \<open>
  C7 as stated fails: an open of 4700.125 is stored as 4700.125, not as 4700.13.
\<close>

theorem unrounded_price_counterexample:
  "map col_open (table_of (run_db (trade_ngin_ingest_fetch_and_load_data
       (\<lambda>k. Inr (client_with [''ES''] [bar 2 4700.125 4712 4690 4700 1500])) ok_env ''key'' None)))
     = [4700.125]
   \<and> map col_open (table_of (run_db (trade_ngin_ingest_fetch_and_load_data
       (\<lambda>k. Inr (client_with [''ES''] [bar 2 4700.125 4712 4690 4700 1500])) ok_env ''key'' None)))
     \<noteq> [4700.13]
   \<and> map col_open (table_of (run_db (fetch_data_fetch_and_load_data
       (\<lambda>k. Inr (client_with [''ES''] [bar 2 4700.125 4712 4690 4700 1500])) ok_env ''key'' ''ES''
       ''2023-01-01'' ''2024-01-09'' None))) = [4700.125]"
  by (simp add: trade_ngin_ingest_fetch_and_load_data_def fetch_data_fetch_and_load_data_def
      client_with_def bar_def ok_env_def
      get_db_connection_def connect_def ensure_schema_exists_def commit_def tz_localize_utc_def
      load_records_def load_rows_def row_params_def
      execute_values_def paginate.simps page_size_def execute_def adaptable_def in_integer_range_def
      server_accepts_def timestamptz_def stored_def
      row_key_def close_def table_of_def)


subsection \<open>A failing provider, and an empty window\<close>







subsection \<open>What an entry point hands back\<close>

lemma trade_ngin_run_returns:
  assumes "Historical api_key = Inr client"
    and "can_connect env
         \<or> (\<exists>e. get_range client ''GLBX.MDP3'' [''ES''] ''2024-01-01'' ''2024-01-31'' ''ohlcv-1d'' = Inl e)
         \<or> get_range client ''GLBX.MDP3'' [''ES''] ''2024-01-01'' ''2024-01-31'' ''ohlcv-1d'' = Inr []"
  shows "run_outcome (trade_ngin_ingest_fetch_and_load_data Historical env api_key d) = Returned_None"
  using assms(2)
proof (elim disjE exE)
  assume "can_connect env"
  with assms(1) show ?thesis by (rule trade_ngin_run_outcome)
next
  fix e
  assume "get_range client ''GLBX.MDP3'' [''ES''] ''2024-01-01'' ''2024-01-31'' ''ohlcv-1d'' = Inl e"
  with assms(1) show ?thesis by (simp add: trade_ngin_ingest_fetch_and_load_data_def)
next
  assume "get_range client ''GLBX.MDP3'' [''ES''] ''2024-01-01'' ''2024-01-31'' ''ohlcv-1d'' = Inr []"
  with assms(1) show ?thesis by (simp add: trade_ngin_ingest_fetch_and_load_data_def)
qed

text \<open>
  C9, as the code has it. An entry point hands back no value, and no count.
  \<open>scripts/fetch_data.py\<close> leaves the process with exit status 1 when the client
  cannot be built, the database cannot be reached or prepared, or the request fails, and
  returns \<open>None\<close> otherwise. \<open>trade_ngin/scripts/ingest_data.py\<close>, once its client
  is built and its connection, where the run comes to it, is made, returns \<open>None\<close>,
  and so does \<open>scripts/ingest_data.py\<close> once its client is built; whether rows were
  stored, and how many, is in the log only.
\<close>

theorem entry_point_outcomes:
  "run_outcome (fetch_data_fetch_and_load_data Historical env api_key symbol start_date end_date d) =
     (case Historical api_key of
        Inl e \<Rightarrow> Sys_exit 1
      | Inr client \<Rightarrow>
          if can_connect env \<and> can_create env
          then (case get_historical_ohlcv client ''CME'' [symbol] start_date end_date ''1d'' of
                  Inl e \<Rightarrow> Sys_exit 1 | Inr answer \<Rightarrow> Returned_None)
          else Sys_exit 1)
   \<and> (Historical api_key = Inr provider_client
        \<and> (can_connect env
            \<or> (\<exists>e. get_range provider_client ''GLBX.MDP3'' [''ES''] ''2024-01-01'' ''2024-01-31''
                       ''ohlcv-1d'' = Inl e)
            \<or> get_range provider_client ''GLBX.MDP3'' [''ES''] ''2024-01-01'' ''2024-01-31''
                  ''ohlcv-1d'' = Inr []) \<longrightarrow>
      run_outcome (trade_ngin_ingest_fetch_and_load_data Historical env api_key d) = Returned_None)
   \<and> (Historical api_key = Inr provider_client \<longrightarrow>
      run_outcome (scripts_ingest_fetch_and_load_data Historical env api_key start_date end_date d)
        = Returned_None)"
proof (intro conjI impI)
  show "run_outcome (fetch_data_fetch_and_load_data Historical env api_key symbol start_date end_date d) =
     (case Historical api_key of
        Inl e \<Rightarrow> Sys_exit 1
      | Inr client \<Rightarrow>
          if can_connect env \<and> can_create env
          then (case get_historical_ohlcv client ''CME'' [symbol] start_date end_date ''1d'' of
                  Inl e \<Rightarrow> Sys_exit 1 | Inr answer \<Rightarrow> Returned_None)
          else Sys_exit 1)"
    by (rule fetch_data_run_outcome)
next
  assume "Historical api_key = Inr provider_client
        \<and> (can_connect env
            \<or> (\<exists>e. get_range provider_client ''GLBX.MDP3'' [''ES''] ''2024-01-01'' ''2024-01-31''
                       ''ohlcv-1d'' = Inl e)
            \<or> get_range provider_client ''GLBX.MDP3'' [''ES''] ''2024-01-01'' ''2024-01-31''
                  ''ohlcv-1d'' = Inr [])"
  then show "run_outcome (trade_ngin_ingest_fetch_and_load_data Historical env api_key d) = Returned_None"
    using trade_ngin_run_returns[of Historical api_key provider_client env d] by blast
next
  assume "Historical api_key = Inr provider_client"
  then show "run_outcome (scripts_ingest_fetch_and_load_data Historical env api_key start_date end_date d)
        = Returned_None"
    by (rule scripts_ingest_run_outcome)
qed

theorem entry_point_outcomes_witness:
  "run_outcome (fetch_data_fetch_and_load_data (\<lambda>k. Inr client_down) ok_env ''key'' ''ES''
      ''2024-01-01'' ''2024-01-31'' None) = Sys_exit 1
   \<and> run_outcome (fetch_data_fetch_and_load_data (\<lambda>k. Inr (client_with [''ES''] ten_bars)) ok_env ''key''
      ''ES'' ''2024-01-01'' ''2024-01-31'' None) = Returned_None
   \<and> run_outcome (trade_ngin_ingest_fetch_and_load_data (\<lambda>k. Inr (client_with [''ES''] ten_bars))
      ok_env ''key'' None) = Returned_None
   \<and> run_outcome (trade_ngin_ingest_fetch_and_load_data (\<lambda>k. Inr client_down)
      (ok_env\<lparr>can_connect := False\<rparr>) ''key'' None) = Returned_None
   \<and> run_outcome (scripts_ingest_fetch_and_load_data (\<lambda>k. Inr client_down) ok_env ''key''
      ''2024-01-01'' ''2024-01-31'' None) = Returned_None"
proof -
  have down: "(\<lambda>k. Inr client_down) ''key'' = (Inr client_down :: pyexn + provider)"
    and up: "(\<lambda>k. Inr (client_with [''ES''] ten_bars)) ''key''
               = (Inr (client_with [''ES''] ten_bars) :: pyexn + provider)"
    by simp_all
  have e: "can_connect ok_env" "can_create ok_env" by (simp_all add: ok_env_def)
  have a: "get_historical_ohlcv client_down ''CME'' [''ES''] ''2024-01-01'' ''2024-01-31'' ''1d''
      = Inl (ProviderFailure ''401'')"
    "get_range client_down ''GLBX.MDP3'' [''ES''] ''2024-01-01'' ''2024-01-31'' ''ohlcv-1d''
      = Inl (ProviderFailure ''401'')"
    by (simp_all add: client_down_def)
  have b: "get_historical_ohlcv (client_with [''ES''] ten_bars) ''CME'' [''ES''] ''2024-01-01''
      ''2024-01-31'' ''1d'' = Inr (Some ten_bars)"
    by (simp add: client_with_def)
  from entry_point_outcomes[where Historical = "\<lambda>k. Inr client_down" and env = ok_env
      and api_key = "''key''" and symbol = "''ES''" and start_date = "''2024-01-01''"
      and end_date = "''2024-01-31''" and d = None and provider_client = client_down] e a(1)
  have 1: "run_outcome (fetch_data_fetch_and_load_data (\<lambda>k. Inr client_down) ok_env ''key'' ''ES''
      ''2024-01-01'' ''2024-01-31'' None) = Sys_exit 1" by simp
  from entry_point_outcomes[where Historical = "\<lambda>k. Inr client_down" and env = ok_env
      and api_key = "''key''" and symbol = "''ES''" and start_date = "''2024-01-01''"
      and end_date = "''2024-01-31''" and d = None and provider_client = client_down] down
  have 5: "run_outcome (scripts_ingest_fetch_and_load_data (\<lambda>k. Inr client_down) ok_env ''key''
      ''2024-01-01'' ''2024-01-31'' None) = Returned_None" by blast
  from entry_point_outcomes[where Historical = "\<lambda>k. Inr (client_with [''ES''] ten_bars)"
      and env = ok_env and api_key = "''key''" and symbol = "''ES''" and start_date = "''2024-01-01''"
      and end_date = "''2024-01-31''" and d = None
      and provider_client = "client_with [''ES''] ten_bars"] e b
  have 2: "run_outcome (fetch_data_fetch_and_load_data (\<lambda>k. Inr (client_with [''ES''] ten_bars)) ok_env
      ''key'' ''ES'' ''2024-01-01'' ''2024-01-31'' None) = Returned_None" by simp
  from entry_point_outcomes[where Historical = "\<lambda>k. Inr (client_with [''ES''] ten_bars)"
      and env = ok_env and api_key = "''key''" and symbol = "''ES''" and start_date = "''2024-01-01''"
      and end_date = "''2024-01-31''" and d = None
      and provider_client = "client_with [''ES''] ten_bars"] up e(1)
  have 3: "run_outcome (trade_ngin_ingest_fetch_and_load_data (\<lambda>k. Inr (client_with [''ES''] ten_bars))
      ok_env ''key'' None) = Returned_None" by blast
  from entry_point_outcomes[where Historical = "\<lambda>k. Inr client_down"
      and env = "ok_env\<lparr>can_connect := False\<rparr>"
      and api_key = "''key''" and symbol = "''ES''" and start_date = "''2024-01-01''"
      and end_date = "''2024-01-31''" and d = None and provider_client = client_down] down a(2)
  have 4: "run_outcome (trade_ngin_ingest_fetch_and_load_data (\<lambda>k. Inr client_down)
      (ok_env\<lparr>can_connect := False\<rparr>) ''key'' None) = Returned_None" by blast
  from 1 2 3 4 5 show ?thesis by simp
qed

text \<open>
  C9 as stated fails: a run that stores ten rows and a run that stores none, because the
  provider is down or the window is empty, return the same \<open>None\<close>; success and row
  count are in the log only. The count in the log is not that of the rows written either:
  of three bars, the second with a volume that does not fit the column,
  \<open>scripts/fetch_data.py\<close> logs one row, stores none and returns \<open>None\<close>.
\<close>

theorem same_return_counterexample:
  "run_outcome (trade_ngin_ingest_fetch_and_load_data (\<lambda>k. Inr (client_with [''ES''] ten_bars)) ok_env ''key'' None)
     = Returned_None
   \<and> length (table_of (run_db
       (trade_ngin_ingest_fetch_and_load_data (\<lambda>k. Inr (client_with [''ES''] ten_bars)) ok_env ''key'' None))) = 10
   \<and> trade_ngin_ingest_fetch_and_load_data (\<lambda>k. Inr client_down) ok_env ''key'' None
     = \<lparr>run_db = None, run_log = [Err_fetch (ProviderFailure ''401'')], run_outcome = Returned_None\<rparr>
   \<and> run_outcome (scripts_ingest_fetch_and_load_data (\<lambda>k. Inr (client_with [''ES''] ten_bars)) ok_env ''key''
       ''2024-01-01'' ''2024-01-31'' None) = Returned_None
   \<and> length (table_of (run_db (scripts_ingest_fetch_and_load_data (\<lambda>k. Inr (client_with [''ES''] ten_bars))
       ok_env ''key'' ''2024-01-01'' ''2024-01-31'' None))) = 10
   \<and> scripts_ingest_fetch_and_load_data (\<lambda>k. Inr client_down) ok_env ''key'' ''2024-01-01'' ''2024-01-31'' None
     = \<lparr>run_db = None, run_log = [Err_fetch (ProviderFailure ''401'')], run_outcome = Returned_None\<rparr>
   \<and> run_outcome (fetch_data_fetch_and_load_data (\<lambda>k. Inr (client_with [''ES''] ten_bars)) ok_env ''key'' ''ES''
       ''2023-01-01'' ''2024-01-09'' None) = Returned_None
   \<and> length (table_of (run_db (fetch_data_fetch_and_load_data (\<lambda>k. Inr (client_with [''ES''] ten_bars))
       ok_env ''key'' ''ES'' ''2023-01-01'' ''2024-01-09'' None))) = 10
   \<and> run_outcome (fetch_data_fetch_and_load_data (\<lambda>k. Inr (client_with [''ES''] [])) ok_env ''key'' ''ES''
       ''2023-01-01'' ''2024-01-09'' None) = Returned_None
   \<and> fetch_data_fetch_and_load_data (\<lambda>k. Inr (client_with [''ES''] oversized_bars)) ok_env ''key'' ''ES''
       ''2023-01-01'' ''2024-01-09'' None
     = \<lparr>run_db = Some [],
        run_log = [Err_row bar_big DataError,
                   Err_row (bar 4 4710 4720 4700 4705 1300) InFailedSqlTransaction,
                   Info_loaded 1, Info_closed],
        run_outcome = Returned_None\<rparr>"
  by (simp add: trade_ngin_ingest_fetch_and_load_data_def fetch_data_fetch_and_load_data_def
      scripts_ingest_fetch_and_load_data_def client_down_def
      client_with_def ten_bars_def oversized_bars_def bar_big_def bar_def ok_env_def
      get_db_connection_def connect_def ensure_schema_exists_def commit_def tz_localize_utc_def
      load_records_def load_rows_def row_params_def
      execute_values_def paginate.simps page_size_def execute_def adaptable_def in_integer_range_def
      server_accepts_def timestamptz_def stored_def
      row_key_def close_def table_of_def)

end
